theory Spec2Isabelle
  imports Main
begin

section \<open>The TTL value cache of internal/cachevalue\<close>

text \<open>
  The development embeds \<^verbatim>\<open>src/internal/cachevalue/cache.go\<close>: the generic
  \<^verbatim>\<open>Cache[T]\<close> with its constructors, the one-time binder \<^verbatim>\<open>InitOnce\<close>,
  the query \<^verbatim>\<open>GetWithCtx\<close> and the internal \<^verbatim>\<open>update\<close>.

  Conventions of the embedding.
  \<^item> A \<^verbatim>\<open>time.Duration\<close> and a reading of \<^verbatim>\<open>time.Now()\<close> are integers counting
    nanoseconds (the latter since the Unix epoch). Every reading of the clock that the
    source makes is an argument of the function that makes it.
  \<^item> The refresh function returns \<^verbatim>\<open>(T, error)\<close>; the model has \<open>Inl err\<close> for a non-nil
    error and \<open>Inr v\<close> for a value with a nil error. A Go function value may be nil, so
    the field is an option.
  \<^item> \<^verbatim>\<open>atomic.Pointer[T]\<close> is an option (\<open>None\<close> is the nil pointer), \<^verbatim>\<open>sync.Mutex\<close>
    a boolean (held or free), \<^verbatim>\<open>sync.Once\<close> a boolean (fired or not).
  \<^item> A panic of the Go runtime is a result of its own.
\<close>

subsection \<open>Time\<close>

type_synonym Duration = int

text \<open>\<^verbatim>\<open>Duration.Milliseconds\<close> is \<^verbatim>\<open>int64(d) / 1e6\<close>; Go's integer division truncates
  toward zero, HOL's \<open>div\<close> rounds down, so the negative case is written out.\<close>

definition Milliseconds :: "Duration \<Rightarrow> int" where
  "Milliseconds d = (if d < 0 then - ((- d) div 1000000) else d div 1000000)"

text \<open>\<^verbatim>\<open>Time.UnixMilli\<close> of a clock reading: whole milliseconds since the epoch, rounded down.\<close>

definition UnixMilli :: "int \<Rightarrow> int" where
  "UnixMilli now = now div 1000000"

text \<open>\<^verbatim>\<open>time.Since(time.UnixMilli(ms))\<close> evaluated when the clock reads \<open>now\<close>. (Go saturates
  the difference at the bounds of int64, about 292 years; the model does not.)\<close>

definition Since :: "int \<Rightarrow> int \<Rightarrow> Duration" where
  "Since now ms = now - ms * 1000000"

subsection \<open>Data\<close>

text \<open>A \<^verbatim>\<open>context.Context\<close>: the background context, or one supplied by a request.\<close>

datatype Context = Background | Request nat

record Opts =
  ReturnLastGood :: bool
  NoWait :: bool

record ('a, 'e) Cache =
  updateFn :: "(Context \<Rightarrow> 'e + 'a) option"
  ttl :: Duration
  opts :: Opts
  Once :: bool
  val :: "'a option"
  lastUpdateMs :: int
  updating :: bool

datatype panic = NilFuncCall | NilValDeref

text \<open>What a call of \<^verbatim>\<open>GetWithCtx\<close> does: it returns \<^verbatim>\<open>(T, error)\<close>, or it panics, or
  it waits in \<^verbatim>\<open>Lock()\<close> for the holder of the guard.\<close>

datatype ('a, 'e) result = Return 'a "'e option" | Panic panic | Blocked

record ('a, 'e) outcome =
  result :: "('a, 'e) result"
  cache :: "('a, 'e) Cache"
  calls :: "Context list"
  spawned :: bool

subsection \<open>Construction and binding\<close>

definition New :: "('a, 'e) Cache" where
  "New = \<lparr>updateFn = None, ttl = 0, opts = \<lparr>ReturnLastGood = False, NoWait = False\<rparr>,
          Once = False, val = None, lastUpdateMs = 0, updating = False\<rparr>"

definition NewFromFunc ::
  "Duration \<Rightarrow> Opts \<Rightarrow> (Context \<Rightarrow> 'e + 'a) option \<Rightarrow> ('a, 'e) Cache" where
  "NewFromFunc d os update =
     \<lparr>updateFn = update, ttl = d, opts = os,
      Once = False, val = None, lastUpdateMs = 0, updating = False\<rparr>"

text \<open>\<^verbatim>\<open>t.Once.Do(f)\<close> runs \<open>f\<close> when the \<^verbatim>\<open>Once\<close> has not fired, and marks it fired.\<close>

definition InitOnce ::
  "Duration \<Rightarrow> Opts \<Rightarrow> (Context \<Rightarrow> 'e + 'a) option \<Rightarrow> ('a, 'e) Cache \<Rightarrow> ('a, 'e) Cache" where
  "InitOnce d os update t =
     (if Once t then t
      else t\<lparr>ttl := d, updateFn := update, opts := os, Once := True\<rparr>)"

subsection \<open>The internal update\<close>

text \<open>\<open>update ctx now t\<close> is \<^verbatim>\<open>t.update(ctx)\<close> where \<open>now\<close> is the clock reading of the
  final \<^verbatim>\<open>time.Now()\<close>. It yields the returned error (\<open>None\<close> is nil) or the panic of
  calling a nil function, the cache afterwards, and the contexts with which the refresh
  function was invoked.\<close>

definition update ::
  "Context \<Rightarrow> int \<Rightarrow> ('a, 'e) Cache \<Rightarrow> (panic + 'e option) \<times> ('a, 'e) Cache \<times> Context list" where
  "update ctx now t =
     (case updateFn t of
        None \<Rightarrow> (Inl NilFuncCall, t, [])
      | Some f \<Rightarrow>
          (case f ctx of
             Inl err \<Rightarrow>
               (if ReturnLastGood (opts t) \<and> val t \<noteq> None then (Inr None, t, [ctx])
                else (Inr (Some err), t, [ctx]))
           | Inr v \<Rightarrow>
               (Inr None, t\<lparr>val := Some v, lastUpdateMs := UnixMilli now\<rparr>, [ctx])))"

subsection \<open>The query\<close>

text \<open>The part of \<^verbatim>\<open>GetWithCtx\<close> that runs holding the guard, from the return of
  \<^verbatim>\<open>t.updating.Lock()\<close> to the deferred \<^verbatim>\<open>Unlock\<close>. \<open>t\<close> is the cache as it stands when
  \<^verbatim>\<open>Lock()\<close> returns, \<open>d\<close> the local \<^verbatim>\<open>ttl\<close> read at entry, \<open>zeroT\<close> the zero value of
  \<^verbatim>\<open>T\<close>, \<open>now2\<close> the clock at \<^verbatim>\<open>time.Since\<close> and \<open>now3\<close> the clock inside \<^verbatim>\<open>update\<close>.\<close>

definition syncRefresh ::
  "'a \<Rightarrow> Context \<Rightarrow> Duration \<Rightarrow> int \<Rightarrow> int \<Rightarrow> ('a, 'e) Cache \<Rightarrow> ('a, 'e) outcome" where
  "syncRefresh zeroT ctx d now2 now3 t =
     (case (if Since now2 (lastUpdateMs t) < d then val t else None) of
        Some v \<Rightarrow>
          \<lparr>result = Return v None, cache = t\<lparr>updating := False\<rparr>, calls = [], spawned = False\<rparr>
      | None \<Rightarrow>
          (case update ctx now3 (t\<lparr>updating := True\<rparr>) of
             (Inl p, t', cs) \<Rightarrow>
               \<lparr>result = Panic p, cache = t'\<lparr>updating := False\<rparr>, calls = cs, spawned = False\<rparr>
           | (Inr (Some err), t', cs) \<Rightarrow>
               \<lparr>result = Return zeroT (Some err), cache = t'\<lparr>updating := False\<rparr>,
                calls = cs, spawned = False\<rparr>
           | (Inr None, t', cs) \<Rightarrow>
               (case val t' of
                  None \<Rightarrow>
                    \<lparr>result = Panic NilValDeref, cache = t'\<lparr>updating := False\<rparr>,
                     calls = cs, spawned = False\<rparr>
                | Some v \<Rightarrow>
                    \<lparr>result = Return v None, cache = t'\<lparr>updating := False\<rparr>,
                     calls = cs, spawned = False\<rparr>)))"

text \<open>The body of the goroutine that the stale path starts:
  \<^verbatim>\<open>defer t.updating.Unlock(); t.update(context.Background())\<close>. It yields the cache
  afterwards and the contexts with which the refresh function was invoked.\<close>

definition backgroundRefresh :: "int \<Rightarrow> ('a, 'e) Cache \<Rightarrow> ('a, 'e) Cache \<times> Context list" where
  "backgroundRefresh now t =
     (case update Background now t of (r, t', cs) \<Rightarrow> (t'\<lparr>updating := False\<rparr>, cs))"

text \<open>\<^verbatim>\<open>GetWithCtx\<close> run by one goroutine on the cache \<open>t\<close>, with \<open>now1\<close> the clock at the
  first \<^verbatim>\<open>time.Now()\<close>. \<open>spawned\<close> says that the call started the goroutine of
  \<open>backgroundRefresh\<close>, which then holds the guard. When the guard is held at
  \<^verbatim>\<open>Lock()\<close> the call waits; it goes on as \<open>syncRefresh\<close> from the cache that the holder
  leaves.\<close>

definition GetWithCtx ::
  "'a \<Rightarrow> Context \<Rightarrow> int \<Rightarrow> int \<Rightarrow> int \<Rightarrow> ('a, 'e) Cache \<Rightarrow> ('a, 'e) outcome" where
  "GetWithCtx zeroT ctx now1 now2 now3 t =
     (let v = val t; d = ttl t; vTime = lastUpdateMs t; tNow = UnixMilli now1 in
      case (if tNow - vTime < Milliseconds d then v else None) of
        Some x \<Rightarrow> \<lparr>result = Return x None, cache = t, calls = [], spawned = False\<rparr>
      | None \<Rightarrow>
          (case (if NoWait (opts t) \<and> tNow - vTime < Milliseconds d * 2 then v else None) of
             Some x \<Rightarrow>
               (if updating t
                then \<lparr>result = Return x None, cache = t, calls = [], spawned = False\<rparr>
                else \<lparr>result = Return x None, cache = t\<lparr>updating := True\<rparr>,
                      calls = [], spawned = True\<rparr>)
           | None \<Rightarrow>
               (if updating t
                then \<lparr>result = Blocked, cache = t, calls = [], spawned = False\<rparr>
                else syncRefresh zeroT ctx d now2 now3 t)))"

definition Get :: "'a \<Rightarrow> int \<Rightarrow> int \<Rightarrow> int \<Rightarrow> ('a, 'e) Cache \<Rightarrow> ('a, 'e) outcome" where
  "Get zeroT now1 now2 now3 t = GetWithCtx zeroT Background now1 now2 now3 t"

subsection \<open>A lifetime of calls\<close>

text \<open>The calls that reach a cache during its lifetime: \<^verbatim>\<open>InitOnce\<close>, \<^verbatim>\<open>GetWithCtx\<close>, and
  the goroutine of the stale path running to its end.\<close>

datatype ('a, 'e) call =
    CallInitOnce Duration Opts "(Context \<Rightarrow> 'e + 'a) option"
  | CallGetWithCtx 'a Context int int int
  | GoroutineRuns int

fun perform :: "('a, 'e) call \<Rightarrow> ('a, 'e) Cache \<Rightarrow> ('a, 'e) Cache" where
  "perform (CallInitOnce d os fn) t = InitOnce d os fn t"
| "perform (CallGetWithCtx zeroT ctx now1 now2 now3) t = cache (GetWithCtx zeroT ctx now1 now2 now3 t)"
| "perform (GoroutineRuns now) t = fst (backgroundRefresh now t)"

fun lifetime :: "('a, 'e) call list \<Rightarrow> ('a, 'e) Cache \<Rightarrow> ('a, 'e) Cache" where
  "lifetime [] t = t"
| "lifetime (c # cs) t = lifetime cs (perform c t)"

subsection \<open>A reader beside a writer\<close>

text \<open>
  \<^verbatim>\<open>GetWithCtx\<close> begins with two atomic loads, \<^verbatim>\<open>v := t.val.Load()\<close> and then
  \<^verbatim>\<open>vTime := t.lastUpdateMs.Load()\<close>; a successful \<^verbatim>\<open>update\<close> ends with two atomic
  stores, \<^verbatim>\<open>t.val.Store(&val)\<close> and then \<^verbatim>\<open>t.lastUpdateMs.Store(...)\<close>. The reader takes
  no lock before its loads. Operations of \<^verbatim>\<open>sync/atomic\<close> are sequentially consistent, so
  a run of one reader beside one writer is an interleaving of these four operations, each
  thread in program order. A schedule names the thread that moves next; a thread that has
  finished does not move.
\<close>

datatype thread = Reader | Writer

record 'a race =
  sharedVal :: "'a option"
  sharedMs :: int
  writerPc :: nat
  readerPc :: nat
  readV :: "'a option"
  readVTime :: int

definition writerStep :: "'a \<Rightarrow> int \<Rightarrow> 'a race \<Rightarrow> 'a race" where
  "writerStep v ms s =
     (if writerPc s = 0 then s\<lparr>sharedVal := Some v, writerPc := 1\<rparr>
      else if writerPc s = 1 then s\<lparr>sharedMs := ms, writerPc := 2\<rparr>
      else s)"

definition readerStep :: "'a race \<Rightarrow> 'a race" where
  "readerStep s =
     (if readerPc s = 0 then s\<lparr>readV := sharedVal s, readerPc := 1\<rparr>
      else if readerPc s = 1 then s\<lparr>readVTime := sharedMs s, readerPc := 2\<rparr>
      else s)"

fun interleave :: "'a \<Rightarrow> int \<Rightarrow> thread list \<Rightarrow> 'a race \<Rightarrow> 'a race" where
  "interleave v ms [] s = s"
| "interleave v ms (Reader # sch) s = interleave v ms sch (readerStep s)"
| "interleave v ms (Writer # sch) s = interleave v ms sch (writerStep v ms s)"

text \<open>Both threads at their first operation, the cache holding \<open>old\<close> stamped \<open>oldMs\<close>.\<close>

definition raceStart :: "'a option \<Rightarrow> int \<Rightarrow> 'a race" where
  "raceStart old oldMs =
     \<lparr>sharedVal = old, sharedMs = oldMs, writerPc = 0, readerPc = 0,
      readV = None, readVTime = 0\<rparr>"

subsection \<open>Refresh functions for the examples\<close>

definition refreshOk :: "'a \<Rightarrow> Context \<Rightarrow> 'e + 'a" where
  "refreshOk v ctx = Inr v"

definition refreshFail :: "'e \<Rightarrow> Context \<Rightarrow> 'e + 'a" where
  "refreshFail err ctx = Inl err"

section \<open>Arithmetic of the time comparisons\<close>

lemma Milliseconds_floor: "0 \<le> d \<Longrightarrow> Milliseconds d * 1000000 \<le> d"
  unfolding Milliseconds_def by simp

lemma Milliseconds_nonpos: "d < 0 \<Longrightarrow> Milliseconds d \<le> 0"
  unfolding Milliseconds_def by simp

lemma Milliseconds_sub_ms: "\<bar>d\<bar> < 1000000 \<Longrightarrow> Milliseconds d = 0"
  unfolding Milliseconds_def by (simp add: div_pos_pos_trivial)

lemma Milliseconds_fraction: "0 < d \<Longrightarrow> d mod 1000000 \<noteq> 0 \<Longrightarrow> Milliseconds d * 1000000 < d"
proof -
  assume d: "0 < d" "d mod 1000000 \<noteq> 0"
  have "d = d div 1000000 * 1000000 + d mod 1000000" by simp
  moreover have "0 \<le> d mod 1000000" by simp
  ultimately have "d div 1000000 * 1000000 < d" using d(2) by linarith
  then show ?thesis using d(1) by (simp add: Milliseconds_def)
qed

lemma Since_mono: "now1 \<le> now2 \<Longrightarrow> Since now1 ms \<le> Since now2 ms"
  by (simp add: Since_def)

lemma Since_div: "Since now ms div 1000000 = UnixMilli now - ms"
proof -
  have "(now + (- ms) * 1000000) div 1000000 = (- ms) + now div 1000000"
    by (rule div_mult_self1) simp
  then show ?thesis by (simp add: Since_def UnixMilli_def)
qed

lemma age_nonneg: "0 \<le> Since now ms \<Longrightarrow> 0 \<le> UnixMilli now - ms"
proof -
  assume "0 \<le> Since now ms"
  then have "0 div 1000000 \<le> Since now ms div 1000000" by (rule zdiv_mono1) simp
  then show ?thesis by (simp add: Since_div)
qed

lemma Milliseconds_le_age:
  assumes "0 \<le> Since now ms" and "d \<le> Since now ms"
  shows "Milliseconds d \<le> UnixMilli now - ms"
proof (cases "d < 0")
  case True
  then show ?thesis using Milliseconds_nonpos [of d] age_nonneg [OF assms(1)] by simp
next
  case False
  have "d div 1000000 \<le> Since now ms div 1000000" using assms(2) by (rule zdiv_mono1) simp
  then show ?thesis using False by (simp add: Since_div Milliseconds_def)
qed

lemma Milliseconds_twice_le_age:
  assumes "0 \<le> Since now ms" and "2 * d \<le> Since now ms"
  shows "Milliseconds d * 2 \<le> UnixMilli now - ms"
proof (cases "d < 0")
  case True
  then show ?thesis using Milliseconds_nonpos [of d] age_nonneg [OF assms(1)] by simp
next
  case False
  then have "Milliseconds d * 1000000 \<le> d" using Milliseconds_floor [of d] by simp
  then have "(Milliseconds d * 2) * 1000000 \<le> Since now ms" using assms(2) by simp
  then have "((Milliseconds d * 2) * 1000000) div 1000000 \<le> Since now ms div 1000000"
    by (rule zdiv_mono1) simp
  then show ?thesis by (simp add: Since_div)
qed

subsection \<open>What the operations keep\<close>

lemma update_nil_val: "update ctx now t = (Inr None, t', cs) \<Longrightarrow> val t' \<noteq> None"
  by (auto simp: update_def split: option.splits sum.splits if_splits)

lemma syncRefresh_keeps_binding:
  "ttl (cache (syncRefresh z ctx d n2 n3 t)) = ttl t
   \<and> opts (cache (syncRefresh z ctx d n2 n3 t)) = opts t
   \<and> updateFn (cache (syncRefresh z ctx d n2 n3 t)) = updateFn t
   \<and> Once (cache (syncRefresh z ctx d n2 n3 t)) = Once t"
  by (auto simp: syncRefresh_def update_def split: option.splits sum.splits if_splits)

lemma GetWithCtx_keeps_binding:
  "ttl (cache (GetWithCtx z ctx n1 n2 n3 t)) = ttl t
   \<and> opts (cache (GetWithCtx z ctx n1 n2 n3 t)) = opts t
   \<and> updateFn (cache (GetWithCtx z ctx n1 n2 n3 t)) = updateFn t
   \<and> Once (cache (GetWithCtx z ctx n1 n2 n3 t)) = Once t"
  using syncRefresh_keeps_binding [of z ctx "ttl t" n2 n3 t]
  by (simp add: GetWithCtx_def Let_def split: option.splits)

lemma backgroundRefresh_keeps_binding:
  "ttl (fst (backgroundRefresh n t)) = ttl t
   \<and> opts (fst (backgroundRefresh n t)) = opts t
   \<and> updateFn (fst (backgroundRefresh n t)) = updateFn t
   \<and> Once (fst (backgroundRefresh n t)) = Once t"
  by (auto simp: backgroundRefresh_def update_def split: option.splits sum.splits if_splits)

lemma perform_keeps_binding:
  "Once t \<Longrightarrow>
     Once (perform c t) \<and> ttl (perform c t) = ttl t \<and> opts (perform c t) = opts t
     \<and> updateFn (perform c t) = updateFn t"
proof (cases c)
  case (CallInitOnce d os fn)
  assume "Once t" then show ?thesis using CallInitOnce by (simp add: InitOnce_def)
next
  case (CallGetWithCtx z ctx n1 n2 n3)
  assume "Once t" then show ?thesis
    using CallGetWithCtx GetWithCtx_keeps_binding [of z ctx n1 n2 n3 t] by simp
next
  case (GoroutineRuns n)
  assume "Once t" then show ?thesis
    using GoroutineRuns backgroundRefresh_keeps_binding [of n t] by simp
qed

lemma lifetime_keeps_binding:
  "Once t \<Longrightarrow>
     Once (lifetime cs t) \<and> ttl (lifetime cs t) = ttl t \<and> opts (lifetime cs t) = opts t
     \<and> updateFn (lifetime cs t) = updateFn t"
proof (induction cs arbitrary: t)
  case Nil
  then show ?case by simp
next
  case (Cons c cs)
  from Cons.prems have p: "Once (perform c t) \<and> ttl (perform c t) = ttl t
      \<and> opts (perform c t) = opts t \<and> updateFn (perform c t) = updateFn t"
    by (rule perform_keeps_binding)
  with Cons.IH [of "perform c t"] show ?case by simp
qed

lemma Once_InitOnce: "Once (InitOnce d os fn t)"
  by (simp add: InitOnce_def)


subsection \<open>Which path a call takes\<close>

lemma GetWithCtx_sync:
  assumes "val t = None \<or> (Milliseconds (ttl t) \<le> UnixMilli now1 - lastUpdateMs t
             \<and> (NoWait (opts t) \<longrightarrow> Milliseconds (ttl t) * 2 \<le> UnixMilli now1 - lastUpdateMs t))"
    and "\<not> updating t"
  shows "GetWithCtx zeroT ctx now1 now2 now3 t = syncRefresh zeroT ctx (ttl t) now2 now3 t"
  using assms by (auto simp: GetWithCtx_def Let_def split: option.splits)

lemma syncRefresh_refreshes:
  assumes "val t = None \<or> d \<le> Since now2 (lastUpdateMs t)" and "updateFn t = Some f"
  shows "calls (syncRefresh zeroT ctx d now2 now3 t) = [ctx]
       \<and> \<not> spawned (syncRefresh zeroT ctx d now2 now3 t)
       \<and> result (syncRefresh zeroT ctx d now2 now3 t)
           = (case f ctx of
                Inr x \<Rightarrow> Return x None
              | Inl err \<Rightarrow>
                  (case (if ReturnLastGood (opts t) then val t else None) of
                     Some old \<Rightarrow> Return old None
                   | None \<Rightarrow> Return zeroT (Some err)))"
  using assms by (auto simp: syncRefresh_def update_def split: option.splits sum.splits)

lemma guard_held_no_spawn: "updating t \<Longrightarrow> \<not> spawned (GetWithCtx z ctx n1 n2 n3 t)"
  by (simp add: GetWithCtx_def Let_def split: option.splits)

lemma backgroundRefresh_calls:
  "snd (backgroundRefresh n t) = (if updateFn t = None then [] else [Background])"
  by (auto simp: backgroundRefresh_def update_def split: option.splits sum.splits)

section \<open>The claims\<close>

subsection \<open>C1: idempotent initialisation\<close>

text \<open>C1 as stated fails for a cache built by \<^verbatim>\<open>NewFromFunc\<close>: the constructor sets the
  three fields and leaves \<^verbatim>\<open>Once\<close> unfired, so the first \<^verbatim>\<open>InitOnce\<close> on it replaces
  the ttl, the options and the refresh function.\<close>

theorem NewFromFunc_then_InitOnce_rebinds:
  "InitOnce 2000000 \<lparr>ReturnLastGood = True, NoWait = True\<rparr> (Some (refreshOk (9::nat)))
       (NewFromFunc 1000000 \<lparr>ReturnLastGood = False, NoWait = False\<rparr>
          (Some (refreshOk 8 :: Context \<Rightarrow> nat + nat)))
     \<noteq> NewFromFunc 1000000 \<lparr>ReturnLastGood = False, NoWait = False\<rparr> (Some (refreshOk 8))
   \<and> ttl (InitOnce 2000000 \<lparr>ReturnLastGood = True, NoWait = True\<rparr> (Some (refreshOk (9::nat)))
       (NewFromFunc 1000000 \<lparr>ReturnLastGood = False, NoWait = False\<rparr>
          (Some (refreshOk 8 :: Context \<Rightarrow> nat + nat)))) = 2000000
   \<and> opts (InitOnce 2000000 \<lparr>ReturnLastGood = True, NoWait = True\<rparr> (Some (refreshOk (9::nat)))
       (NewFromFunc 1000000 \<lparr>ReturnLastGood = False, NoWait = False\<rparr>
          (Some (refreshOk 8 :: Context \<Rightarrow> nat + nat))))
       = \<lparr>ReturnLastGood = True, NoWait = True\<rparr>
   \<and> updateFn (InitOnce 2000000 \<lparr>ReturnLastGood = True, NoWait = True\<rparr> (Some (refreshOk (9::nat)))
       (NewFromFunc 1000000 \<lparr>ReturnLastGood = False, NoWait = False\<rparr>
          (Some (refreshOk 8 :: Context \<Rightarrow> nat + nat)))) = Some (refreshOk 9)"
  by (simp add: InitOnce_def NewFromFunc_def)

text \<open>C1 (amended): on a new cache the first \<^verbatim>\<open>InitOnce\<close> binds its arguments; and once a
  first \<^verbatim>\<open>InitOnce\<close> has completed on any cache, every later \<^verbatim>\<open>InitOnce\<close> is ignored,
  whatever calls (\<^verbatim>\<open>InitOnce\<close>, \<^verbatim>\<open>GetWithCtx\<close>, a background refresh) came in between,
  and the ttl, options and refresh function of that first \<^verbatim>\<open>InitOnce\<close> stay bound.\<close>

theorem InitOnce_first_binding_wins:
  "ttl (InitOnce d1 os1 fn1 New) = d1 \<and> opts (InitOnce d1 os1 fn1 New) = os1
   \<and> updateFn (InitOnce d1 os1 fn1 New) = fn1
   \<and> InitOnce d2 os2 fn2 (lifetime cs (InitOnce d1 os1 fn1 t)) = lifetime cs (InitOnce d1 os1 fn1 t)
   \<and> ttl (lifetime cs (InitOnce d1 os1 fn1 t)) = ttl (InitOnce d1 os1 fn1 t)
   \<and> opts (lifetime cs (InitOnce d1 os1 fn1 t)) = opts (InitOnce d1 os1 fn1 t)
   \<and> updateFn (lifetime cs (InitOnce d1 os1 fn1 t)) = updateFn (InitOnce d1 os1 fn1 t)"
proof -
  have fired: "Once (InitOnce d1 os1 fn1 t)" by (rule Once_InitOnce)
  have kept: "Once (lifetime cs (InitOnce d1 os1 fn1 t))
      \<and> ttl (lifetime cs (InitOnce d1 os1 fn1 t)) = ttl (InitOnce d1 os1 fn1 t)
      \<and> opts (lifetime cs (InitOnce d1 os1 fn1 t)) = opts (InitOnce d1 os1 fn1 t)
      \<and> updateFn (lifetime cs (InitOnce d1 os1 fn1 t)) = updateFn (InitOnce d1 os1 fn1 t)"
    using fired by (rule lifetime_keeps_binding)
  then have "InitOnce d2 os2 fn2 (lifetime cs (InitOnce d1 os1 fn1 t))
      = lifetime cs (InitOnce d1 os1 fn1 t)"
    by (simp add: InitOnce_def)
  moreover have "ttl (InitOnce d1 os1 fn1 New) = d1 \<and> opts (InitOnce d1 os1 fn1 New) = os1
      \<and> updateFn (InitOnce d1 os1 fn1 New) = fn1"
    by (simp add: InitOnce_def New_def)
  ultimately show ?thesis using kept by simp
qed

subsection \<open>C8: a failed refresh mutates nothing\<close>

text \<open>C8: when the refresh function returns an error, \<^verbatim>\<open>update\<close> leaves the cache as it
  was (the stored value and the timestamp with it), both when it suppresses the error
  (\<^verbatim>\<open>ReturnLastGood\<close> with a value stored) and when it returns it.\<close>

theorem update_error_no_mutation:
  assumes "updateFn t = Some f" and "f ctx = Inl err"
  shows "fst (snd (update ctx now t)) = t
       \<and> fst (update ctx now t)
           = Inr (if ReturnLastGood (opts t) \<and> val t \<noteq> None then None else Some err)"
  using assms by (simp add: update_def)

text \<open>C8 at a cache holding 7 with \<^verbatim>\<open>ReturnLastGood\<close> and a failing refresh.\<close>

theorem update_error_no_mutation_witness:
  "fst (snd (update (Request 1) 5000000
      ((NewFromFunc 1000000 \<lparr>ReturnLastGood = True, NoWait = False\<rparr>
          (Some (refreshFail (3::nat) :: Context \<Rightarrow> nat + nat)))
         \<lparr>val := Some 7, lastUpdateMs := 2\<rparr>)))
    = (NewFromFunc 1000000 \<lparr>ReturnLastGood = True, NoWait = False\<rparr> (Some (refreshFail 3)))
         \<lparr>val := Some 7, lastUpdateMs := 2\<rparr>
   \<and> fst (update (Request 1) 5000000
      ((NewFromFunc 1000000 \<lparr>ReturnLastGood = True, NoWait = False\<rparr>
          (Some (refreshFail (3::nat) :: Context \<Rightarrow> nat + nat)))
         \<lparr>val := Some 7, lastUpdateMs := 2\<rparr>)) = Inr None"
  using update_error_no_mutation
    [of "(NewFromFunc 1000000 \<lparr>ReturnLastGood = True, NoWait = False\<rparr>
          (Some (refreshFail (3::nat) :: Context \<Rightarrow> nat + nat)))
         \<lparr>val := Some 7, lastUpdateMs := 2\<rparr>" "refreshFail 3" "Request 1" 3 5000000]
  by (simp add: NewFromFunc_def refreshFail_def)

subsection \<open>C10: no nil dereference after a nil error\<close>

text \<open>C10: whenever \<^verbatim>\<open>update\<close> returns a nil error a value is stored afterwards, and
  neither the guarded part of \<^verbatim>\<open>GetWithCtx\<close> nor \<^verbatim>\<open>GetWithCtx\<close> itself ever
  dereferences a nil stored pointer.\<close>

theorem update_nil_error_value_stored:
  "(fst (update ctx now t) = Inr None \<longrightarrow> val (fst (snd (update ctx now t))) \<noteq> None)
   \<and> result (syncRefresh zeroT ctx d now2 now3 t) \<noteq> Panic NilValDeref
   \<and> result (GetWithCtx zeroT ctx now1 now2 now3 t) \<noteq> Panic NilValDeref"
proof -
  have a: "fst (update ctx now t) = Inr None \<longrightarrow> val (fst (snd (update ctx now t))) \<noteq> None"
    using update_nil_val [of ctx now t] by (cases "update ctx now t") auto
  have b: "\<And>d t. result (syncRefresh zeroT ctx d now2 now3 t) \<noteq> Panic NilValDeref"
    by (auto simp: syncRefresh_def update_def split: option.splits sum.splits if_splits)
  have c: "result (GetWithCtx zeroT ctx now1 now2 now3 t) \<noteq> Panic NilValDeref"
    using b [of "ttl t" t] by (simp add: GetWithCtx_def Let_def split: option.splits)
  from a b c show ?thesis by simp
qed

text \<open>C10 at an empty cache with a succeeding refresh.\<close>

theorem update_nil_error_value_stored_witness:
  "fst (update (Request 1) 5000000
      (NewFromFunc 1000000 \<lparr>ReturnLastGood = False, NoWait = False\<rparr>
          (Some (refreshOk (8::nat) :: Context \<Rightarrow> nat + nat)))) = Inr None
   \<and> val (fst (snd (update (Request 1) 5000000
      (NewFromFunc 1000000 \<lparr>ReturnLastGood = False, NoWait = False\<rparr>
          (Some (refreshOk (8::nat) :: Context \<Rightarrow> nat + nat)))))) \<noteq> None"
  using update_nil_error_value_stored
    [of "Request 1" 5000000 "NewFromFunc 1000000 \<lparr>ReturnLastGood = False, NoWait = False\<rparr>
          (Some (refreshOk (8::nat) :: Context \<Rightarrow> nat + nat))" 0 0 0 0 0]
  by (simp add: update_def NewFromFunc_def refreshOk_def)


subsection \<open>C3: the fresh path\<close>

text \<open>C3 as stated fails when the ttl has a fraction of a millisecond: with ttl 1.5 ms and
  \<^verbatim>\<open>NoWait\<close>, a value of age 1 ms is younger than the ttl, yet the call starts the
  background goroutine, which invokes the refresh function.\<close>

theorem fresh_path_fractional_ttl_refreshes:
  "val ((NewFromFunc 1500000 \<lparr>ReturnLastGood = False, NoWait = True\<rparr>
           (Some (refreshOk (8::nat) :: Context \<Rightarrow> nat + nat))) \<lparr>val := Some 7\<rparr>) = Some 7
   \<and> Since 1000000 (lastUpdateMs ((NewFromFunc 1500000 \<lparr>ReturnLastGood = False, NoWait = True\<rparr>
           (Some (refreshOk (8::nat) :: Context \<Rightarrow> nat + nat))) \<lparr>val := Some 7\<rparr>))
       < ttl ((NewFromFunc 1500000 \<lparr>ReturnLastGood = False, NoWait = True\<rparr>
           (Some (refreshOk (8::nat) :: Context \<Rightarrow> nat + nat))) \<lparr>val := Some 7\<rparr>)
   \<and> spawned (GetWithCtx 0 (Request 1) 1000000 1000000 1000000
        ((NewFromFunc 1500000 \<lparr>ReturnLastGood = False, NoWait = True\<rparr>
           (Some (refreshOk (8::nat) :: Context \<Rightarrow> nat + nat))) \<lparr>val := Some 7\<rparr>))
   \<and> snd (backgroundRefresh 1000000 (cache (GetWithCtx 0 (Request 1) 1000000 1000000 1000000
        ((NewFromFunc 1500000 \<lparr>ReturnLastGood = False, NoWait = True\<rparr>
           (Some (refreshOk (8::nat) :: Context \<Rightarrow> nat + nat))) \<lparr>val := Some 7\<rparr>))))
       = [Background]"
  by (simp add: GetWithCtx_def backgroundRefresh_def update_def NewFromFunc_def refreshOk_def
      Since_def UnixMilli_def Milliseconds_def Let_def)

text \<open>C3 (amended): when a value is stored and its age in whole milliseconds is strictly less
  than \<^verbatim>\<open>ttl.Milliseconds()\<close>, \<^verbatim>\<open>GetWithCtx\<close> returns that value with a nil error, leaves
  the cache as it is, invokes no refresh and starts no goroutine.\<close>

theorem fresh_path:
  assumes "val t = Some v"
    and "UnixMilli now1 - lastUpdateMs t < Milliseconds (ttl t)"
  shows "GetWithCtx zeroT ctx now1 now2 now3 t
         = \<lparr>result = Return v None, cache = t, calls = [], spawned = False\<rparr>"
  using assms by (simp add: GetWithCtx_def Let_def)

text \<open>C3 (amended) at ttl 100 ms and age 50 ms.\<close>

theorem fresh_path_witness:
  "GetWithCtx 0 (Request 1) 50000000 50000000 50000000
     ((NewFromFunc 100000000 \<lparr>ReturnLastGood = False, NoWait = False\<rparr>
         (Some (refreshOk (8::nat) :: Context \<Rightarrow> nat + nat))) \<lparr>val := Some 7\<rparr>)
   = \<lparr>result = Return 7 None,
      cache = (NewFromFunc 100000000 \<lparr>ReturnLastGood = False, NoWait = False\<rparr>
         (Some (refreshOk 8))) \<lparr>val := Some 7\<rparr>,
      calls = [], spawned = False\<rparr>"
  using fresh_path [of "(NewFromFunc 100000000 \<lparr>ReturnLastGood = False, NoWait = False\<rparr>
         (Some (refreshOk (8::nat) :: Context \<Rightarrow> nat + nat))) \<lparr>val := Some 7\<rparr>"
       7 50000000 0 "Request 1" 50000000 50000000]
  by (simp add: NewFromFunc_def UnixMilli_def Milliseconds_def)

subsection \<open>C4: the re-check under the guard\<close>

text \<open>C4: holding the guard, if the stored timestamp is within ttl of now and a value is
  stored, that value is returned and the refresh function is not invoked; the refresh
  function is invoked only when this re-check fails, and then (when one is bound) once,
  with the caller's context.\<close>

theorem syncRefresh_recheck:
  "(Since now2 (lastUpdateMs t) < d \<and> val t = Some v \<longrightarrow>
      syncRefresh zeroT ctx d now2 now3 t
        = \<lparr>result = Return v None, cache = t\<lparr>updating := False\<rparr>, calls = [], spawned = False\<rparr>)
   \<and> (calls (syncRefresh zeroT ctx d now2 now3 t) \<noteq> [] \<longrightarrow>
        \<not> (Since now2 (lastUpdateMs t) < d \<and> val t \<noteq> None))
   \<and> (\<not> (Since now2 (lastUpdateMs t) < d \<and> val t \<noteq> None) \<and> updateFn t \<noteq> None \<longrightarrow>
        calls (syncRefresh zeroT ctx d now2 now3 t) = [ctx])"
  by (auto simp: syncRefresh_def update_def split: option.splits sum.splits if_splits)

text \<open>C4 at ttl 100 ms: a value stamped 10 ms ago is returned, one stamped 150 ms ago is
  refreshed.\<close>

theorem syncRefresh_recheck_witness:
  "syncRefresh 0 (Request 1) 100000000 150000000 150000000
     ((NewFromFunc 100000000 \<lparr>ReturnLastGood = False, NoWait = False\<rparr>
         (Some (refreshOk (8::nat) :: Context \<Rightarrow> nat + nat)))
        \<lparr>val := Some 7, lastUpdateMs := 140\<rparr>)
   = \<lparr>result = Return 7 None,
      cache = (NewFromFunc 100000000 \<lparr>ReturnLastGood = False, NoWait = False\<rparr>
         (Some (refreshOk 8))) \<lparr>val := Some 7, lastUpdateMs := 140\<rparr>,
      calls = [], spawned = False\<rparr>
   \<and> calls (syncRefresh 0 (Request 1) 100000000 150000000 150000000
     ((NewFromFunc 100000000 \<lparr>ReturnLastGood = False, NoWait = False\<rparr>
         (Some (refreshOk (8::nat) :: Context \<Rightarrow> nat + nat)))
        \<lparr>val := Some 7, lastUpdateMs := 0\<rparr>)) = [Request 1]"
  using syncRefresh_recheck [of 150000000
      "(NewFromFunc 100000000 \<lparr>ReturnLastGood = False, NoWait = False\<rparr>
         (Some (refreshOk (8::nat) :: Context \<Rightarrow> nat + nat)))
        \<lparr>val := Some 7, lastUpdateMs := 140\<rparr>" 100000000 7 0 "Request 1" 150000000]
    syncRefresh_recheck [of 150000000
      "(NewFromFunc 100000000 \<lparr>ReturnLastGood = False, NoWait = False\<rparr>
         (Some (refreshOk (8::nat) :: Context \<Rightarrow> nat + nat)))
        \<lparr>val := Some 7, lastUpdateMs := 0\<rparr>" 100000000 7 0 "Request 1" 150000000]
  by (simp add: NewFromFunc_def Since_def)


subsection \<open>C5: the stale path\<close>

text \<open>C5 as stated fails when the ttl has a fraction of a millisecond: with ttl 1.5 ms and
  \<^verbatim>\<open>NoWait\<close>, an age of 2 ms lies in [ttl, 2 ttl), yet the call refreshes synchronously
  with the caller's context and returns the new value.\<close>

theorem stale_path_fractional_ttl_waits:
  "NoWait (opts ((NewFromFunc 1500000 \<lparr>ReturnLastGood = False, NoWait = True\<rparr>
           (Some (refreshOk (8::nat) :: Context \<Rightarrow> nat + nat))) \<lparr>val := Some 7\<rparr>))
   \<and> ttl ((NewFromFunc 1500000 \<lparr>ReturnLastGood = False, NoWait = True\<rparr>
           (Some (refreshOk (8::nat) :: Context \<Rightarrow> nat + nat))) \<lparr>val := Some 7\<rparr>)
       \<le> Since 2000000 (lastUpdateMs ((NewFromFunc 1500000 \<lparr>ReturnLastGood = False, NoWait = True\<rparr>
           (Some (refreshOk (8::nat) :: Context \<Rightarrow> nat + nat))) \<lparr>val := Some 7\<rparr>))
   \<and> Since 2000000 (lastUpdateMs ((NewFromFunc 1500000 \<lparr>ReturnLastGood = False, NoWait = True\<rparr>
           (Some (refreshOk (8::nat) :: Context \<Rightarrow> nat + nat))) \<lparr>val := Some 7\<rparr>))
       < 2 * ttl ((NewFromFunc 1500000 \<lparr>ReturnLastGood = False, NoWait = True\<rparr>
           (Some (refreshOk (8::nat) :: Context \<Rightarrow> nat + nat))) \<lparr>val := Some 7\<rparr>)
   \<and> GetWithCtx 0 (Request 1) 2000000 2000000 2000000
        ((NewFromFunc 1500000 \<lparr>ReturnLastGood = False, NoWait = True\<rparr>
           (Some (refreshOk (8::nat) :: Context \<Rightarrow> nat + nat))) \<lparr>val := Some 7\<rparr>)
       = \<lparr>result = Return 8 None,
          cache = (NewFromFunc 1500000 \<lparr>ReturnLastGood = False, NoWait = True\<rparr>
           (Some (refreshOk 8))) \<lparr>val := Some 8, lastUpdateMs := 2\<rparr>,
          calls = [Request 1], spawned = False\<rparr>"
  by (simp add: GetWithCtx_def syncRefresh_def update_def NewFromFunc_def refreshOk_def
      Since_def UnixMilli_def Milliseconds_def Let_def)

text \<open>C5 (amended): with \<^verbatim>\<open>NoWait\<close>, a value stored and its age in whole milliseconds in
  [\<^verbatim>\<open>ttl.Milliseconds()\<close>, 2 \<^verbatim>\<open>ttl.Milliseconds()\<close>), \<^verbatim>\<open>GetWithCtx\<close> returns the old value
  with a nil error without invoking the refresh function itself; it starts the background
  goroutine exactly when the guard is free, the guard is held afterwards so that no later
  call starts another one before it is released, and the goroutine invokes the refresh
  function with the background context only.\<close>

theorem stale_path:
  assumes "NoWait (opts t)" and "val t = Some v"
    and "Milliseconds (ttl t) \<le> UnixMilli now1 - lastUpdateMs t"
    and "UnixMilli now1 - lastUpdateMs t < Milliseconds (ttl t) * 2"
  shows "GetWithCtx zeroT ctx now1 now2 now3 t
           = \<lparr>result = Return v None, cache = t\<lparr>updating := True\<rparr>, calls = [],
              spawned = (\<not> updating t)\<rparr>
       \<and> snd (backgroundRefresh now (cache (GetWithCtx zeroT ctx now1 now2 now3 t)))
           = (if updateFn t = None then [] else [Background])
       \<and> \<not> spawned (GetWithCtx zeroT' ctx' now1' now2' now3'
             (cache (GetWithCtx zeroT ctx now1 now2 now3 t)))"
proof -
  have g: "GetWithCtx zeroT ctx now1 now2 now3 t
           = \<lparr>result = Return v None, cache = t\<lparr>updating := True\<rparr>, calls = [],
              spawned = (\<not> updating t)\<rparr>"
    using assms by (cases "updating t") (simp_all add: GetWithCtx_def Let_def)
  have "updating (cache (GetWithCtx zeroT ctx now1 now2 now3 t))" by (simp add: g)
  then have "\<not> spawned (GetWithCtx zeroT' ctx' now1' now2' now3'
             (cache (GetWithCtx zeroT ctx now1 now2 now3 t)))"
    by (rule guard_held_no_spawn)
  moreover have "snd (backgroundRefresh now (cache (GetWithCtx zeroT ctx now1 now2 now3 t)))
           = (if updateFn t = None then [] else [Background])"
    by (simp add: backgroundRefresh_calls g)
  ultimately show ?thesis using g by simp
qed

text \<open>C5 (amended) at ttl 100 ms and age 150 ms.\<close>

theorem stale_path_witness:
  "GetWithCtx 0 (Request 1) 150000000 150000000 150000000
     ((NewFromFunc 100000000 \<lparr>ReturnLastGood = False, NoWait = True\<rparr>
         (Some (refreshOk (8::nat) :: Context \<Rightarrow> nat + nat))) \<lparr>val := Some 7\<rparr>)
   = \<lparr>result = Return 7 None,
      cache = (NewFromFunc 100000000 \<lparr>ReturnLastGood = False, NoWait = True\<rparr>
         (Some (refreshOk 8))) \<lparr>val := Some 7, updating := True\<rparr>,
      calls = [], spawned = True\<rparr>"
  using stale_path [of "(NewFromFunc 100000000 \<lparr>ReturnLastGood = False, NoWait = True\<rparr>
         (Some (refreshOk (8::nat) :: Context \<Rightarrow> nat + nat))) \<lparr>val := Some 7\<rparr>"
       7 150000000 0 "Request 1" 150000000 150000000 0 0 "Request 2" 0 0 0]
  by (simp add: NewFromFunc_def UnixMilli_def Milliseconds_def)


subsection \<open>C6: the synchronous path\<close>

text \<open>C6 as stated fails with \<^verbatim>\<open>ReturnLastGood\<close>: at an age of five times the ttl the call
  refreshes synchronously, the refresh fails, and the call returns the stale value 7 with
  a nil error, not the outcome of the refresh.\<close>

theorem synchronous_path_returns_last_good:
  "(2 * ttl ((NewFromFunc 1000000 \<lparr>ReturnLastGood = True, NoWait = False\<rparr>
           (Some (refreshFail (3::nat) :: Context \<Rightarrow> nat + nat))) \<lparr>val := Some (7::nat)\<rparr>)
      \<le> Since 5000000 (lastUpdateMs ((NewFromFunc 1000000 \<lparr>ReturnLastGood = True, NoWait = False\<rparr>
           (Some (refreshFail (3::nat) :: Context \<Rightarrow> nat + nat))) \<lparr>val := Some (7::nat)\<rparr>)))
   \<and> refreshFail (3::nat) (Request 1) = (Inl 3 :: nat + nat)
   \<and> GetWithCtx 0 (Request 1) 5000000 5000000 5000000
        ((NewFromFunc 1000000 \<lparr>ReturnLastGood = True, NoWait = False\<rparr>
           (Some (refreshFail (3::nat) :: Context \<Rightarrow> nat + nat))) \<lparr>val := Some (7::nat)\<rparr>)
       = \<lparr>result = Return 7 None,
          cache = (NewFromFunc 1000000 \<lparr>ReturnLastGood = True, NoWait = False\<rparr>
           (Some (refreshFail 3))) \<lparr>val := Some 7\<rparr>,
          calls = [Request 1], spawned = False\<rparr>"
  by (simp add: GetWithCtx_def syncRefresh_def update_def NewFromFunc_def refreshFail_def
      Since_def UnixMilli_def Milliseconds_def Let_def)

text \<open>C6 (amended): the age is the time in nanoseconds from the stored timestamp to the
  clock at the call, \<open>Since now1 (lastUpdateMs t)\<close>. When no value is stored, or the age
  is at least 2 ttl, or \<^verbatim>\<open>NoWait\<close> is off and the age is at least ttl (in the last two
  cases the clock not behind the stored timestamp, which holds for every ttl that is not
  negative), then, the guard being free and the clock not running backwards during the
  call, \<^verbatim>\<open>GetWithCtx\<close> invokes the refresh function once with the caller's context,
  starts no goroutine, and returns the new value on success and the zero value with the
  error on failure, except that on failure with \<^verbatim>\<open>ReturnLastGood\<close> and a value stored it
  returns that value with a nil error.\<close>

theorem synchronous_path:
  assumes "val t = None
         \<or> (0 \<le> Since now1 (lastUpdateMs t)
              \<and> (2 * ttl t \<le> Since now1 (lastUpdateMs t)
                   \<or> (\<not> NoWait (opts t) \<and> ttl t \<le> Since now1 (lastUpdateMs t))))"
    and "now1 \<le> now2" and "\<not> updating t" and "updateFn t = Some f"
  shows "calls (GetWithCtx zeroT ctx now1 now2 now3 t) = [ctx]
       \<and> \<not> spawned (GetWithCtx zeroT ctx now1 now2 now3 t)
       \<and> result (GetWithCtx zeroT ctx now1 now2 now3 t)
           = (case f ctx of
                Inr x \<Rightarrow> Return x None
              | Inl err \<Rightarrow>
                  (case (if ReturnLastGood (opts t) then val t else None) of
                     Some old \<Rightarrow> Return old None
                   | None \<Rightarrow> Return zeroT (Some err)))"
proof -
  let ?a = "UnixMilli now1 - lastUpdateMs t"
  let ?s = "Since now1 (lastUpdateMs t)"
  have mono: "?s \<le> Since now2 (lastUpdateMs t)" using assms(2) by (rule Since_mono)
  have gate: "val t = None \<or> (Milliseconds (ttl t) \<le> ?a
             \<and> (NoWait (opts t) \<longrightarrow> Milliseconds (ttl t) * 2 \<le> ?a))"
  proof (cases "val t = None")
    case True
    then show ?thesis by simp
  next
    case False
    with assms(1) have nn: "0 \<le> ?s"
      and alt: "2 * ttl t \<le> ?s \<or> (\<not> NoWait (opts t) \<and> ttl t \<le> ?s)" by auto
    from alt show ?thesis
    proof
      assume two: "2 * ttl t \<le> ?s"
      then have "ttl t \<le> ?s" using nn by (cases "ttl t < 0") auto
      then have "Milliseconds (ttl t) \<le> ?a" using nn by (simp add: Milliseconds_le_age)
      moreover have "Milliseconds (ttl t) * 2 \<le> ?a"
        using nn two by (rule Milliseconds_twice_le_age)
      ultimately show ?thesis by simp
    next
      assume one: "\<not> NoWait (opts t) \<and> ttl t \<le> ?s"
      then have "Milliseconds (ttl t) \<le> ?a" using nn by (simp add: Milliseconds_le_age)
      then show ?thesis using one by simp
    qed
  qed
  have re: "val t = None \<or> ttl t \<le> Since now2 (lastUpdateMs t)"
  proof (cases "val t = None")
    case True
    then show ?thesis by simp
  next
    case False
    with assms(1) have nn: "0 \<le> ?s"
      and alt: "2 * ttl t \<le> ?s \<or> (\<not> NoWait (opts t) \<and> ttl t \<le> ?s)" by auto
    then have "ttl t \<le> ?s" by (cases "ttl t < 0") auto
    then show ?thesis using mono by simp
  qed
  have "GetWithCtx zeroT ctx now1 now2 now3 t = syncRefresh zeroT ctx (ttl t) now2 now3 t"
    using gate assms(3) by (rule GetWithCtx_sync)
  then show ?thesis using syncRefresh_refreshes [OF re assms(4)] by simp
qed

text \<open>C6 (amended) with \<^verbatim>\<open>NoWait\<close> at ttl 1.7 ms and age 3.5 ms, and with \<^verbatim>\<open>NoWait\<close> off at
  ttl 100 ms and age 150 ms.\<close>

theorem synchronous_path_witness:
  "calls (GetWithCtx 0 (Request 1) 3500000 3500000 3500000
     ((NewFromFunc 1700000 \<lparr>ReturnLastGood = False, NoWait = True\<rparr>
         (Some (refreshOk (8::nat) :: Context \<Rightarrow> nat + nat))) \<lparr>val := Some 7\<rparr>)) = [Request 1]
   \<and> result (GetWithCtx 0 (Request 1) 3500000 3500000 3500000
     ((NewFromFunc 1700000 \<lparr>ReturnLastGood = False, NoWait = True\<rparr>
         (Some (refreshOk (8::nat) :: Context \<Rightarrow> nat + nat))) \<lparr>val := Some 7\<rparr>))
       = Return 8 None
   \<and> calls (GetWithCtx 0 (Request 1) 150000000 150000000 150000000
     ((NewFromFunc 100000000 \<lparr>ReturnLastGood = False, NoWait = False\<rparr>
         (Some (refreshOk (8::nat) :: Context \<Rightarrow> nat + nat))) \<lparr>val := Some 7\<rparr>)) = [Request 1]
   \<and> result (GetWithCtx 0 (Request 1) 150000000 150000000 150000000
     ((NewFromFunc 100000000 \<lparr>ReturnLastGood = False, NoWait = False\<rparr>
         (Some (refreshOk (8::nat) :: Context \<Rightarrow> nat + nat))) \<lparr>val := Some 7\<rparr>))
       = Return 8 None"
  using synchronous_path [of "(NewFromFunc 1700000 \<lparr>ReturnLastGood = False, NoWait = True\<rparr>
         (Some (refreshOk (8::nat) :: Context \<Rightarrow> nat + nat))) \<lparr>val := Some 7\<rparr>"
       3500000 3500000 "refreshOk 8" 0 "Request 1" 3500000]
    synchronous_path [of "(NewFromFunc 100000000 \<lparr>ReturnLastGood = False, NoWait = False\<rparr>
         (Some (refreshOk (8::nat) :: Context \<Rightarrow> nat + nat))) \<lparr>val := Some 7\<rparr>"
       150000000 150000000 "refreshOk 8" 0 "Request 1" 150000000]
  by (simp add: NewFromFunc_def Since_def refreshOk_def)

subsection \<open>C2: ReturnLastGood\<close>

text \<open>C2 as stated fails in the stale window of \<^verbatim>\<open>NoWait\<close>: without \<^verbatim>\<open>ReturnLastGood\<close>, at an
  age equal to the ttl, the call returns the stored value with a nil error and leaves the
  failing refresh to the background goroutine.\<close>

theorem refresh_error_in_stale_window_served:
  "val ((NewFromFunc 1000000 \<lparr>ReturnLastGood = False, NoWait = True\<rparr>
           (Some (refreshFail (3::nat) :: Context \<Rightarrow> nat + nat))) \<lparr>val := Some (7::nat)\<rparr>) = Some 7
   \<and> ttl ((NewFromFunc 1000000 \<lparr>ReturnLastGood = False, NoWait = True\<rparr>
           (Some (refreshFail (3::nat) :: Context \<Rightarrow> nat + nat))) \<lparr>val := Some (7::nat)\<rparr>)
       \<le> Since 1000000 (lastUpdateMs ((NewFromFunc 1000000 \<lparr>ReturnLastGood = False, NoWait = True\<rparr>
           (Some (refreshFail (3::nat) :: Context \<Rightarrow> nat + nat))) \<lparr>val := Some (7::nat)\<rparr>))
   \<and> refreshFail (3::nat) Background = (Inl 3 :: nat + nat)
   \<and> \<not> ReturnLastGood (opts ((NewFromFunc 1000000 \<lparr>ReturnLastGood = False, NoWait = True\<rparr>
           (Some (refreshFail (3::nat) :: Context \<Rightarrow> nat + nat))) \<lparr>val := Some (7::nat)\<rparr>))
   \<and> GetWithCtx 0 (Request 1) 1000000 1000000 1000000
        ((NewFromFunc 1000000 \<lparr>ReturnLastGood = False, NoWait = True\<rparr>
           (Some (refreshFail (3::nat) :: Context \<Rightarrow> nat + nat))) \<lparr>val := Some (7::nat)\<rparr>)
       = \<lparr>result = Return 7 None,
          cache = (NewFromFunc 1000000 \<lparr>ReturnLastGood = False, NoWait = True\<rparr>
           (Some (refreshFail 3))) \<lparr>val := Some 7, updating := True\<rparr>,
          calls = [], spawned = True\<rparr>
   \<and> snd (backgroundRefresh 1000000
        ((NewFromFunc 1000000 \<lparr>ReturnLastGood = False, NoWait = True\<rparr>
           (Some (refreshFail (3::nat) :: Context \<Rightarrow> nat + nat)))
           \<lparr>val := Some (7::nat), updating := True\<rparr>)) = [Background]"
  by (simp add: GetWithCtx_def backgroundRefresh_def update_def NewFromFunc_def refreshFail_def
      Since_def UnixMilli_def Milliseconds_def Let_def)

text \<open>C2 (amended): the age is the time in nanoseconds from the stored timestamp to the
  clock at the call, \<open>Since now1 (lastUpdateMs t)\<close>. For a cache holding a value whose age
  is at least ttl (the clock not behind the stored timestamp, which holds for every ttl
  that is not negative), the guard being free and the clock not running backwards during
  the call, if the refresh function returns an error then \<^verbatim>\<open>GetWithCtx\<close> returns the
  stored value with a nil error when \<^verbatim>\<open>ReturnLastGood\<close> is set, and also, whatever
  \<^verbatim>\<open>ReturnLastGood\<close> is, when the call is served from the stale window of \<^verbatim>\<open>NoWait\<close>
  (\<^verbatim>\<open>NoWait\<close> set and the age in whole milliseconds below 2 \<^verbatim>\<open>ttl.Milliseconds()\<close>); it
  returns the zero value with that error when \<^verbatim>\<open>ReturnLastGood\<close> is not set and the call
  is not served from that window.\<close>

theorem refresh_error_outcome:
  assumes "val t = Some v"
    and "0 \<le> Since now1 (lastUpdateMs t)"
    and "ttl t \<le> Since now1 (lastUpdateMs t)"
    and "now1 \<le> now2" and "\<not> updating t"
    and "updateFn t = Some f" and "f ctx = Inl err"
  shows "(ReturnLastGood (opts t) \<longrightarrow>
            result (GetWithCtx zeroT ctx now1 now2 now3 t) = Return v None)
       \<and> (NoWait (opts t) \<and> UnixMilli now1 - lastUpdateMs t < Milliseconds (ttl t) * 2 \<longrightarrow>
            result (GetWithCtx zeroT ctx now1 now2 now3 t) = Return v None)
       \<and> (\<not> ReturnLastGood (opts t)
            \<and> \<not> (NoWait (opts t) \<and> UnixMilli now1 - lastUpdateMs t < Milliseconds (ttl t) * 2) \<longrightarrow>
            result (GetWithCtx zeroT ctx now1 now2 now3 t) = Return zeroT (Some err))"
proof (cases "NoWait (opts t) \<and> UnixMilli now1 - lastUpdateMs t < Milliseconds (ttl t) * 2")
  case True
  have "Milliseconds (ttl t) \<le> UnixMilli now1 - lastUpdateMs t"
    using assms(2,3) by (rule Milliseconds_le_age)
  then have "result (GetWithCtx zeroT ctx now1 now2 now3 t) = Return v None"
    using True assms(1,5) by (simp add: GetWithCtx_def Let_def)
  then show ?thesis using True by simp
next
  case False
  let ?a = "UnixMilli now1 - lastUpdateMs t"
  have m: "Milliseconds (ttl t) \<le> ?a" using assms(2,3) by (rule Milliseconds_le_age)
  have "Since now1 (lastUpdateMs t) \<le> Since now2 (lastUpdateMs t)"
    using assms(4) by (rule Since_mono)
  then have re: "val t = None \<or> ttl t \<le> Since now2 (lastUpdateMs t)" using assms(3) by simp
  have gate: "val t = None \<or> (Milliseconds (ttl t) \<le> ?a
             \<and> (NoWait (opts t) \<longrightarrow> Milliseconds (ttl t) * 2 \<le> ?a))"
    using m False by auto
  have "GetWithCtx zeroT ctx now1 now2 now3 t = syncRefresh zeroT ctx (ttl t) now2 now3 t"
    using gate assms(5) by (rule GetWithCtx_sync)
  then show ?thesis
    using syncRefresh_refreshes [OF re assms(6), of zeroT ctx now3] assms(1,7) False by simp
qed

text \<open>C2 (amended) at ttl 100 ms and age 150 ms with \<^verbatim>\<open>ReturnLastGood\<close>, at ttl 1.5 ms and
  age 1.7 ms without it, and in the stale window of \<^verbatim>\<open>NoWait\<close> without it.\<close>

theorem refresh_error_outcome_witness:
  "result (GetWithCtx 0 (Request 1) 150000000 150000000 150000000
     ((NewFromFunc 100000000 \<lparr>ReturnLastGood = True, NoWait = False\<rparr>
         (Some (refreshFail (3::nat) :: Context \<Rightarrow> nat + nat))) \<lparr>val := Some (7::nat)\<rparr>))
     = Return 7 None
   \<and> result (GetWithCtx 0 (Request 1) 1700000 1700000 1700000
     ((NewFromFunc 1500000 \<lparr>ReturnLastGood = False, NoWait = False\<rparr>
         (Some (refreshFail (3::nat) :: Context \<Rightarrow> nat + nat))) \<lparr>val := Some (7::nat)\<rparr>))
     = Return 0 (Some 3)
   \<and> result (GetWithCtx 0 (Request 1) 150000000 150000000 150000000
     ((NewFromFunc 100000000 \<lparr>ReturnLastGood = False, NoWait = True\<rparr>
         (Some (refreshFail (3::nat) :: Context \<Rightarrow> nat + nat))) \<lparr>val := Some (7::nat)\<rparr>))
     = Return 7 None"
  using refresh_error_outcome [of "(NewFromFunc 100000000 \<lparr>ReturnLastGood = True, NoWait = False\<rparr>
         (Some (refreshFail (3::nat) :: Context \<Rightarrow> nat + nat))) \<lparr>val := Some (7::nat)\<rparr>"
       7 150000000 150000000 "refreshFail 3" "Request 1" 3 0 150000000]
    refresh_error_outcome [of "(NewFromFunc 1500000 \<lparr>ReturnLastGood = False, NoWait = False\<rparr>
         (Some (refreshFail (3::nat) :: Context \<Rightarrow> nat + nat))) \<lparr>val := Some (7::nat)\<rparr>"
       7 1700000 1700000 "refreshFail 3" "Request 1" 3 0 1700000]
    refresh_error_outcome [of "(NewFromFunc 100000000 \<lparr>ReturnLastGood = False, NoWait = True\<rparr>
         (Some (refreshFail (3::nat) :: Context \<Rightarrow> nat + nat))) \<lparr>val := Some (7::nat)\<rparr>"
       7 150000000 150000000 "refreshFail 3" "Request 1" 3 0 150000000]
  by (simp add: NewFromFunc_def Since_def UnixMilli_def Milliseconds_def refreshFail_def)

subsection \<open>C9: the TTL in whole milliseconds\<close>

text \<open>C9 as stated fails twice. With ttl 0.5 ms a call made 0.2 ms after the stored timestamp
  is served by the re-check under the guard, which compares nanoseconds with the whole
  ttl, so not every call invokes a refresh. And for a negative ttl with a fraction of a
  millisecond the truncation is toward zero, so the truncated ttl is not shorter.\<close>

theorem sub_millisecond_ttl_serves_without_refresh:
  "ttl ((NewFromFunc 500000 \<lparr>ReturnLastGood = False, NoWait = False\<rparr>
           (Some (refreshOk (8::nat) :: Context \<Rightarrow> nat + nat)))
          \<lparr>val := Some 7, lastUpdateMs := 5\<rparr>) < 1000000
   \<and> GetWithCtx 0 (Request 1) 5200000 5200000 5200000
        ((NewFromFunc 500000 \<lparr>ReturnLastGood = False, NoWait = False\<rparr>
           (Some (refreshOk (8::nat) :: Context \<Rightarrow> nat + nat)))
          \<lparr>val := Some 7, lastUpdateMs := 5\<rparr>)
       = \<lparr>result = Return 7 None,
          cache = (NewFromFunc 500000 \<lparr>ReturnLastGood = False, NoWait = False\<rparr>
           (Some (refreshOk 8))) \<lparr>val := Some 7, lastUpdateMs := 5\<rparr>,
          calls = [], spawned = False\<rparr>
   \<and> - 1500000 mod 1000000 \<noteq> (0::int)
   \<and> \<not> Milliseconds (- 1500000) * 1000000 < - 1500000"
  by (simp add: GetWithCtx_def syncRefresh_def update_def NewFromFunc_def refreshOk_def
      Since_def UnixMilli_def Milliseconds_def Let_def)

text \<open>C9 (amended): the fresh and stale comparisons use \<^verbatim>\<open>ttl.Milliseconds()\<close>. For a ttl
  shorter than one millisecond (the clock not behind the stored timestamp, the guard
  free) neither the fresh nor the stale path is taken, every call reaches the guarded
  part, and the refresh function is invoked unless the re-check there finds a value
  stamped less than ttl ago. For a positive ttl with a fraction of a millisecond the
  truncated ttl is strictly shorter than the ttl, and a value whose age in whole
  milliseconds equals the truncated ttl, though younger than the ttl, is not served by
  the fresh path.\<close>

theorem millisecond_truncation:
  "(ttl t < 1000000 \<and> lastUpdateMs t \<le> UnixMilli now1 \<and> \<not> updating t \<longrightarrow>
      GetWithCtx zeroT ctx now1 now2 now3 t = syncRefresh zeroT ctx (ttl t) now2 now3 t
      \<and> (updateFn t \<noteq> None \<longrightarrow>
           calls (GetWithCtx zeroT ctx now1 now2 now3 t)
             = (if Since now2 (lastUpdateMs t) < ttl t \<and> val t \<noteq> None then [] else [ctx])))
   \<and> (0 < ttl t \<and> ttl t mod 1000000 \<noteq> 0 \<longrightarrow> Milliseconds (ttl t) * 1000000 < ttl t)
   \<and> (0 < ttl t \<and> ttl t mod 1000000 \<noteq> 0 \<and> val t = Some v \<and> \<not> updating t
        \<and> UnixMilli now1 - lastUpdateMs t = Milliseconds (ttl t) \<longrightarrow>
          (UnixMilli now1 - lastUpdateMs t) * 1000000 < ttl t
          \<and> (spawned (GetWithCtx zeroT ctx now1 now2 now3 t)
               \<or> GetWithCtx zeroT ctx now1 now2 now3 t
                    = syncRefresh zeroT ctx (ttl t) now2 now3 t))"
proof -
  have a: "ttl t < 1000000 \<and> lastUpdateMs t \<le> UnixMilli now1 \<and> \<not> updating t \<longrightarrow>
      GetWithCtx zeroT ctx now1 now2 now3 t = syncRefresh zeroT ctx (ttl t) now2 now3 t
      \<and> (updateFn t \<noteq> None \<longrightarrow>
           calls (GetWithCtx zeroT ctx now1 now2 now3 t)
             = (if Since now2 (lastUpdateMs t) < ttl t \<and> val t \<noteq> None then [] else [ctx]))"
  proof
    assume h: "ttl t < 1000000 \<and> lastUpdateMs t \<le> UnixMilli now1 \<and> \<not> updating t"
    have "Milliseconds (ttl t) \<le> 0"
      using h Milliseconds_nonpos [of "ttl t"] Milliseconds_sub_ms [of "ttl t"]
      by (cases "ttl t < 0") auto
    then have gate: "val t = None \<or> (Milliseconds (ttl t) \<le> UnixMilli now1 - lastUpdateMs t
             \<and> (NoWait (opts t) \<longrightarrow> Milliseconds (ttl t) * 2 \<le> UnixMilli now1 - lastUpdateMs t))"
      using h by auto
    have g: "GetWithCtx zeroT ctx now1 now2 now3 t = syncRefresh zeroT ctx (ttl t) now2 now3 t"
      using gate h by (auto intro: GetWithCtx_sync)
    have "updateFn t \<noteq> None \<longrightarrow>
           calls (syncRefresh zeroT ctx (ttl t) now2 now3 t)
             = (if Since now2 (lastUpdateMs t) < ttl t \<and> val t \<noteq> None then [] else [ctx])"
      by (auto simp: syncRefresh_def update_def split: option.splits sum.splits)
    with g show "GetWithCtx zeroT ctx now1 now2 now3 t = syncRefresh zeroT ctx (ttl t) now2 now3 t
      \<and> (updateFn t \<noteq> None \<longrightarrow>
           calls (GetWithCtx zeroT ctx now1 now2 now3 t)
             = (if Since now2 (lastUpdateMs t) < ttl t \<and> val t \<noteq> None then [] else [ctx]))"
      by simp
  qed
  have b: "0 < ttl t \<and> ttl t mod 1000000 \<noteq> 0 \<longrightarrow> Milliseconds (ttl t) * 1000000 < ttl t"
    using Milliseconds_fraction [of "ttl t"] by simp
  have c: "0 < ttl t \<and> ttl t mod 1000000 \<noteq> 0 \<and> val t = Some v \<and> \<not> updating t
        \<and> UnixMilli now1 - lastUpdateMs t = Milliseconds (ttl t) \<longrightarrow>
          (UnixMilli now1 - lastUpdateMs t) * 1000000 < ttl t
          \<and> (spawned (GetWithCtx zeroT ctx now1 now2 now3 t)
               \<or> GetWithCtx zeroT ctx now1 now2 now3 t
                    = syncRefresh zeroT ctx (ttl t) now2 now3 t)"
    using b by (auto simp: GetWithCtx_def Let_def split: option.splits)
  show ?thesis using a b c by blast
qed

text \<open>C9 (amended) at ttl 0.5 ms and at ttl 1.5 ms.\<close>

theorem millisecond_truncation_witness:
  "GetWithCtx 0 (Request 1) 5700000 5700000 5700000
        ((NewFromFunc 500000 \<lparr>ReturnLastGood = False, NoWait = False\<rparr>
           (Some (refreshOk (8::nat) :: Context \<Rightarrow> nat + nat)))
          \<lparr>val := Some 7, lastUpdateMs := 5\<rparr>)
     = syncRefresh 0 (Request 1) 500000 5700000 5700000
        ((NewFromFunc 500000 \<lparr>ReturnLastGood = False, NoWait = False\<rparr>
           (Some (refreshOk (8::nat) :: Context \<Rightarrow> nat + nat)))
          \<lparr>val := Some 7, lastUpdateMs := 5\<rparr>)
   \<and> calls (GetWithCtx 0 (Request 1) 5700000 5700000 5700000
        ((NewFromFunc 500000 \<lparr>ReturnLastGood = False, NoWait = False\<rparr>
           (Some (refreshOk (8::nat) :: Context \<Rightarrow> nat + nat)))
          \<lparr>val := Some 7, lastUpdateMs := 5\<rparr>)) = [Request 1]
   \<and> Milliseconds (ttl ((NewFromFunc 1500000 \<lparr>ReturnLastGood = False, NoWait = False\<rparr>
           (Some (refreshOk (8::nat) :: Context \<Rightarrow> nat + nat)))
          \<lparr>val := Some 7\<rparr>)) * 1000000 < 1500000
   \<and> (spawned (GetWithCtx 0 (Request 1) 1200000 1200000 1200000
        ((NewFromFunc 1500000 \<lparr>ReturnLastGood = False, NoWait = False\<rparr>
           (Some (refreshOk (8::nat) :: Context \<Rightarrow> nat + nat)))
          \<lparr>val := Some 7\<rparr>))
      \<or> GetWithCtx 0 (Request 1) 1200000 1200000 1200000
        ((NewFromFunc 1500000 \<lparr>ReturnLastGood = False, NoWait = False\<rparr>
           (Some (refreshOk (8::nat) :: Context \<Rightarrow> nat + nat)))
          \<lparr>val := Some 7\<rparr>)
      = syncRefresh 0 (Request 1) 1500000 1200000 1200000
        ((NewFromFunc 1500000 \<lparr>ReturnLastGood = False, NoWait = False\<rparr>
           (Some (refreshOk (8::nat) :: Context \<Rightarrow> nat + nat)))
          \<lparr>val := Some 7\<rparr>))"
  using millisecond_truncation [of
        "(NewFromFunc 500000 \<lparr>ReturnLastGood = False, NoWait = False\<rparr>
           (Some (refreshOk (8::nat) :: Context \<Rightarrow> nat + nat)))
          \<lparr>val := Some 7, lastUpdateMs := 5\<rparr>" 5700000 0 "Request 1" 5700000 5700000 7]
    millisecond_truncation [of
        "(NewFromFunc 1500000 \<lparr>ReturnLastGood = False, NoWait = False\<rparr>
           (Some (refreshOk (8::nat) :: Context \<Rightarrow> nat + nat)))
          \<lparr>val := Some 7\<rparr>" 1200000 0 "Request 1" 1200000 1200000 7]
  by (simp add: NewFromFunc_def UnixMilli_def Since_def Milliseconds_def
      syncRefresh_def update_def refreshOk_def)


subsection \<open>C7: value and timestamp as a pair\<close>

text \<open>C7 does not hold of the code: the pair is not published as a unit. The cache holds 7
  stamped 0 ms, the ttl is 1 ms, and an \<^verbatim>\<open>update\<close> stores 8 stamped 5 ms while a
  \<^verbatim>\<open>GetWithCtx\<close> runs at clock 5 ms. In the run reader, writer, writer, reader the call,
  which loads the value (line 94) before the timestamp (line 96), observes the old value 7
  with the new timestamp 5. On these loaded values the fresh test passes, so the call
  returns 7, which is five times the ttl old, with a nil error and without a refresh. In
  the run writer, reader, reader, writer the call observes the new value 8 with the old
  timestamp 0.\<close>

theorem reader_observes_mixed_pair:
  "readV (interleave (8::nat) 5 [Reader, Writer, Writer, Reader] (raceStart (Some 7) 0)) = Some 7
   \<and> readVTime (interleave (8::nat) 5 [Reader, Writer, Writer, Reader] (raceStart (Some 7) 0)) = 5
   \<and> 5 * ttl (NewFromFunc 1000000 \<lparr>ReturnLastGood = False, NoWait = False\<rparr>
           (Some (refreshOk (9::nat) :: Context \<Rightarrow> nat + nat))) \<le> Since 5000000 0
   \<and> GetWithCtx 0 (Request 1) 5000000 5000000 5000000
        ((NewFromFunc 1000000 \<lparr>ReturnLastGood = False, NoWait = False\<rparr>
           (Some (refreshOk (9::nat) :: Context \<Rightarrow> nat + nat)))
          \<lparr>val := readV (interleave (8::nat) 5 [Reader, Writer, Writer, Reader]
                     (raceStart (Some 7) 0)),
           lastUpdateMs := readVTime (interleave (8::nat) 5 [Reader, Writer, Writer, Reader]
                     (raceStart (Some 7) 0))\<rparr>)
       = \<lparr>result = Return 7 None,
          cache = (NewFromFunc 1000000 \<lparr>ReturnLastGood = False, NoWait = False\<rparr>
           (Some (refreshOk 9))) \<lparr>val := Some 7, lastUpdateMs := 5\<rparr>,
          calls = [], spawned = False\<rparr>
   \<and> readV (interleave (8::nat) 5 [Writer, Reader, Reader, Writer] (raceStart (Some 7) 0)) = Some 8
   \<and> readVTime (interleave (8::nat) 5 [Writer, Reader, Reader, Writer] (raceStart (Some 7) 0)) = 0"
  by (simp add: raceStart_def readerStep_def writerStep_def GetWithCtx_def NewFromFunc_def
      Since_def UnixMilli_def Milliseconds_def Let_def)

end
